theory Spec2Isabelle
  imports Complex_Main
begin

section \<open>Block-streaming chunking and coalescing resolution\<close>

text \<open>
  A shallow embedding of the three resolvers \<open>resolveBlockStreamingChunking\<close>,
  \<open>resolveTelegramDraftStreamingChunking\<close> and \<open>resolveBlockStreamingCoalescing\<close>
  and of the two private helpers they share.

  Conventions of the embedding:
  \<^item> a value that may be \<open>undefined\<close> or \<open>null\<close> is an \<open>option\<close>; the optional chain
    \<open>a?.b\<close> is \<open>Option.bind\<close> and \<open>a ?? b\<close> is \<open>nullish\<close> below;
  \<^item> a JavaScript number is a \<open>number\<close>: a finite value \<open>Num x\<close> with \<open>x\<close> a real,
    \<open>NaN\<close>, \<open>PosInfinity\<close> or \<open>NegInfinity\<close>. \<open>Math.floor\<close>, \<open>Math.max\<close> and
    \<open>Math.min\<close> never round a finite double, so the finite values are modelled
    exactly; the two signed zeros are the one value \<open>Num 0\<close>;
  \<^item> a JavaScript string is a \<open>string\<close> whose characters are read as the code units
    below 256;
  \<^item> the modules the file imports but that are defined elsewhere (the provider registry,
    the plugin registry, the account normaliser and the text-limit resolver) are the
    fields of the record \<open>env\<close>, so every theorem holds for any of them.
\<close>

subsection \<open>JavaScript primitives\<close>

definition nullish :: "'a option \<Rightarrow> 'a option \<Rightarrow> 'a option" where
  "nullish a b = (case a of Some v \<Rightarrow> Some v | None \<Rightarrow> b)"

definition orElse :: "'a option \<Rightarrow> 'a \<Rightarrow> 'a" where
  "orElse a d = (case a of Some v \<Rightarrow> v | None \<Rightarrow> d)"

datatype number = Num real | NaN | PosInfinity | NegInfinity

text \<open>\<open>Math.floor\<close> keeps \<open>NaN\<close> and the infinities; \<open>Math.max\<close> and \<open>Math.min\<close>
  return \<open>NaN\<close> as soon as one argument is \<open>NaN\<close>.\<close>

fun Math_floor :: "number \<Rightarrow> number" where
  "Math_floor (Num x) = Num (of_int \<lfloor>x\<rfloor>)"
| "Math_floor v = v"

fun Math_max :: "number \<Rightarrow> number \<Rightarrow> number" where
  "Math_max NaN b = NaN"
| "Math_max a NaN = NaN"
| "Math_max PosInfinity b = PosInfinity"
| "Math_max a PosInfinity = PosInfinity"
| "Math_max NegInfinity b = b"
| "Math_max a NegInfinity = a"
| "Math_max (Num x) (Num y) = Num (max x y)"

fun Math_min :: "number \<Rightarrow> number \<Rightarrow> number" where
  "Math_min NaN b = NaN"
| "Math_min a NaN = NaN"
| "Math_min NegInfinity b = NegInfinity"
| "Math_min a NegInfinity = NegInfinity"
| "Math_min PosInfinity b = b"
| "Math_min a PosInfinity = a"
| "Math_min (Num x) (Num y) = Num (min x y)"

text \<open>The comparisons \<open>a <= b\<close> and \<open>a < b\<close> of two numbers, false as soon as one of them
  is \<open>NaN\<close>, and \<open>Number.isInteger\<close>. The resolvers do not call them; the properties
  of their results are stated with them.\<close>

fun js_le :: "number \<Rightarrow> number \<Rightarrow> bool" where
  "js_le NaN b = False"
| "js_le a NaN = False"
| "js_le NegInfinity b = True"
| "js_le a PosInfinity = True"
| "js_le PosInfinity b = False"
| "js_le a NegInfinity = False"
| "js_le (Num x) (Num y) = (x \<le> y)"



text \<open>\<open>String.prototype.trim\<close> removes white space and line terminators at both ends;
  below code unit 256 these are TAB, LF, VT, FF, CR, SPACE and NBSP.\<close>

definition isWhiteSpace :: "char \<Rightarrow> bool" where
  "isWhiteSpace c = (c \<in> set [CHR 0x09, CHR 0x0A, CHR 0x0B, CHR 0x0C, CHR 0x0D, CHR 0x20, CHR 0xA0])"

definition trim :: "string \<Rightarrow> string" where
  "trim s = rev (dropWhile isWhiteSpace (rev (dropWhile isWhiteSpace s)))"

text \<open>\<open>String.prototype.toLowerCase\<close>: below code unit 256 the letters with a lower-case
  form are A..Z, and 0xC0..0xDE without the multiplication sign 0xD7; each maps 32 up.\<close>

definition lowerChar :: "char \<Rightarrow> char" where
  "lowerChar c =
     (let n = (of_char c :: nat)
      in if (65 \<le> n \<and> n \<le> 90) \<or> (192 \<le> n \<and> n \<le> 222 \<and> n \<noteq> 215)
         then char_of (n + 32) else c)"

definition toLowerCase :: "string \<Rightarrow> string" where
  "toLowerCase s = map lowerChar s"

text \<open>Truthiness of a \<open>string | undefined\<close> value: only a non-empty string is truthy.\<close>

definition truthy :: "string option \<Rightarrow> bool" where
  "truthy v = (case v of None \<Rightarrow> False | Some s \<Rightarrow> s \<noteq> [])"

subsection \<open>Configuration snapshot\<close>

text \<open>\<open>BlockStreamingChunkConfig\<close>, also the shape of Telegram's \<open>draftChunk\<close>.\<close>

record ChunkConfig =
  chunk_minChars :: "number option"
  chunk_maxChars :: "number option"
  chunk_breakPreference :: "string option"

text \<open>\<open>BlockStreamingCoalesceConfig\<close>.\<close>

record CoalesceConfig =
  coalesce_minChars :: "number option"
  coalesce_maxChars :: "number option"
  coalesce_idleMs :: "number option"

text \<open>An entry of \<open><provider>.accounts\<close>, and the provider section \<open>cfg[providerKey]\<close>
  itself, which has the same two blocks and the table of accounts.\<close>

record AccountConfig =
  blockStreamingCoalesce :: "CoalesceConfig option"
  draftChunk :: "ChunkConfig option"

record ProviderConfig = AccountConfig +
  accounts :: "(string \<rightharpoonup> AccountConfig) option"

text \<open>\<open>cfg.agents.defaults\<close>, \<open>cfg.agents\<close> and the snapshot. \<open>entry c k\<close> is \<open>c[k]\<close>
  for a provider key \<open>k\<close>, \<open>None\<close> when the property is missing or is not an object
  (line 48); \<open>cfg.telegram\<close> is \<open>entry c ''telegram''\<close>.\<close>

record AgentDefaults =
  blockStreamingChunk :: "ChunkConfig option"
  defaults_blockStreamingCoalesce :: "CoalesceConfig option"

record AgentsConfig =
  defaults :: "AgentDefaults option"

record ClawdbotConfig =
  agents :: "AgentsConfig option"
  entry :: "string \<rightharpoonup> ProviderConfig"

text \<open>The \<open>accountId\<close> argument is \<open>string | null | undefined\<close>.\<close>

datatype AccountIdArg = Undefined | Null | AccountId string

subsection \<open>Imported modules\<close>

record PluginOutbound =
  textChunkLimit :: "number option"

record CoalesceDefaults =
  defaults_minChars :: "number option"
  defaults_idleMs :: "number option"

record PluginStreaming =
  blockStreamingCoalesceDefaults :: "CoalesceDefaults option"

record ProviderPlugin =
  outbound :: "PluginOutbound option"
  streaming :: "PluginStreaming option"

text \<open>
  The imports of lines 3 to 10 are code of other modules, so they are parameters here:
  \<open>PROVIDER_IDS\<close> and \<open>INTERNAL_MESSAGE_PROVIDER\<close> are the known providers and the
  internal sentinel, \<open>normalizeProviderId\<close> returns a plugin id or \<open>null\<close>,
  \<open>getProviderPlugin\<close> is the plugin registry, \<open>normalizeAccountId\<close> the account
  normaliser and \<open>resolveTextChunkLimit\<close> the text-limit resolver, called with the
  configuration, the provider key, the account id and \<open>fallbackLimit\<close>. Its result is a
  \<open>number\<close>, as its declaration says; what its contract promises of the result (a positive
  integer) is a hypothesis of the theorems that need it.
\<close>

record env =
  PROVIDER_IDS :: "string list"
  INTERNAL_MESSAGE_PROVIDER :: string
  normalizeProviderId :: "string \<Rightarrow> string option"
  getProviderPlugin :: "string \<Rightarrow> ProviderPlugin option"
  normalizeAccountId :: "AccountIdArg \<Rightarrow> string"
  resolveTextChunkLimit ::
    "ClawdbotConfig option \<Rightarrow> string option \<Rightarrow> AccountIdArg \<Rightarrow> number option \<Rightarrow> number"

subsection \<open>Constants (lines 12 to 20)\<close>

definition DEFAULT_BLOCK_STREAM_MIN :: number where
  "DEFAULT_BLOCK_STREAM_MIN = Num 800"

definition DEFAULT_BLOCK_STREAM_MAX :: number where
  "DEFAULT_BLOCK_STREAM_MAX = Num 1200"

definition DEFAULT_BLOCK_STREAM_COALESCE_IDLE_MS :: number where
  "DEFAULT_BLOCK_STREAM_COALESCE_IDLE_MS = Num 1000"

definition DEFAULT_TELEGRAM_DRAFT_STREAM_MIN :: number where
  "DEFAULT_TELEGRAM_DRAFT_STREAM_MIN = Num 200"

definition DEFAULT_TELEGRAM_DRAFT_STREAM_MAX :: number where
  "DEFAULT_TELEGRAM_DRAFT_STREAM_MAX = Num 800"

definition BLOCK_CHUNK_PROVIDERS :: "env \<Rightarrow> string set" where
  "BLOCK_CHUNK_PROVIDERS e = set (PROVIDER_IDS e @ [INTERNAL_MESSAGE_PROVIDER e])"

subsection \<open>Helpers (lines 22 to 53)\<close>

definition normalizeChunkProvider :: "env \<Rightarrow> string option \<Rightarrow> string option" where
  "normalizeChunkProvider e provider =
     (case provider of
        None \<Rightarrow> None
      | Some p \<Rightarrow>
          if p = [] then None
          else let cleaned = toLowerCase (trim p)
               in if cleaned \<in> BLOCK_CHUNK_PROVIDERS e then Some cleaned else None)"

definition resolveProviderBlockStreamingCoalesce ::
  "env \<Rightarrow> ClawdbotConfig option \<Rightarrow> string option \<Rightarrow> AccountIdArg \<Rightarrow> CoalesceConfig option" where
  "resolveProviderBlockStreamingCoalesce e cfg providerKey accountId =
     (case cfg of
        None \<Rightarrow> None
      | Some c \<Rightarrow>
          (case providerKey of
             None \<Rightarrow> None
           | Some k \<Rightarrow>
               if k = [] then None
               else (case entry c k of
                       None \<Rightarrow> None
                     | Some typed \<Rightarrow>
                         (let normalizedAccountId = normalizeAccountId e accountId;
                              accountCfg = Option.bind (accounts typed) (\<lambda>t. t normalizedAccountId)
                          in nullish (Option.bind accountCfg blockStreamingCoalesce)
                               (blockStreamingCoalesce typed)))))"

subsection \<open>Results\<close>

text \<open>Both result types have \<open>minChars\<close> and \<open>maxChars\<close>; \<open>Chunking\<close> adds
  \<open>breakPreference\<close>, one of the strings paragraph, newline and sentence, and
  \<open>BlockStreamingCoalescing\<close> adds \<open>idleMs\<close> and \<open>joiner\<close>.\<close>

record Sizes =
  minChars :: number
  maxChars :: number

record Chunking = Sizes +
  breakPreference :: string

record BlockStreamingCoalescing = Sizes +
  idleMs :: number
  joiner :: string

subsection \<open>The hard limit of a call (lines 71 to 78, 107 to 112 and 146 to 153)\<close>

definition providerIdOf :: "env \<Rightarrow> string option \<Rightarrow> string option" where
  "providerIdOf e providerKey =
     (if truthy providerKey then Option.bind providerKey (normalizeProviderId e) else None)"

definition providerChunkLimit :: "env \<Rightarrow> string option \<Rightarrow> number option" where
  "providerChunkLimit e providerId =
     (if truthy providerId
      then Option.bind (Option.bind (Option.bind providerId (getProviderPlugin e)) outbound)
             textChunkLimit
      else None)"

definition textLimit :: "env \<Rightarrow> ClawdbotConfig option \<Rightarrow> string option \<Rightarrow> AccountIdArg \<Rightarrow> number" where
  "textLimit e cfg provider accountId =
     (let providerKey = normalizeChunkProvider e provider;
          providerId = providerIdOf e providerKey
      in resolveTextChunkLimit e cfg providerKey accountId (providerChunkLimit e providerId))"

definition telegramTextLimit :: "env \<Rightarrow> ClawdbotConfig option \<Rightarrow> AccountIdArg \<Rightarrow> number" where
  "telegramTextLimit e cfg accountId =
     resolveTextChunkLimit e cfg (Some ''telegram'') accountId
       (Option.bind (Option.bind (getProviderPlugin e ''telegram'') outbound) textChunkLimit)"

subsection \<open>The resolvers (lines 62 to 196)\<close>

text \<open>The tail of both chunking resolvers, lines 80 to 96 and 118 to 133, which differ
  in the block read and in the two defaults only.\<close>

definition acceptedBreak :: "ChunkConfig option \<Rightarrow> string" where
  "acceptedBreak chunkCfg =
     (case Option.bind chunkCfg chunk_breakPreference of
        None \<Rightarrow> ''paragraph''
      | Some preference \<Rightarrow>
          if preference = ''newline'' \<or> preference = ''sentence''
          then preference else ''paragraph'')"

text \<open>Line 79: \<open>cfg?.agents?.defaults?.blockStreamingChunk\<close>.\<close>

definition agentChunkCfg :: "ClawdbotConfig option \<Rightarrow> ChunkConfig option" where
  "agentChunkCfg cfg =
     Option.bind (Option.bind (Option.bind cfg agents) defaults) blockStreamingChunk"

definition resolveBlockStreamingChunking ::
  "env \<Rightarrow> ClawdbotConfig option \<Rightarrow> string option \<Rightarrow> AccountIdArg \<Rightarrow> Chunking" where
  "resolveBlockStreamingChunking e cfg provider accountId =
     (let limit = textLimit e cfg provider accountId;
          chunkCfg = agentChunkCfg cfg;
          maxRequested = Math_max (Num 1)
            (Math_floor (orElse (Option.bind chunkCfg chunk_maxChars) DEFAULT_BLOCK_STREAM_MAX));
          maxCh = Math_max (Num 1) (Math_min maxRequested limit);
          minFallback = DEFAULT_BLOCK_STREAM_MIN;
          minRequested = Math_max (Num 1)
            (Math_floor (orElse (Option.bind chunkCfg chunk_minChars) minFallback));
          minCh = Math_min minRequested maxCh
      in \<lparr>minChars = minCh, maxChars = maxCh, breakPreference = acceptedBreak chunkCfg\<rparr>)"

text \<open>Lines 113 to 116: the draft block in force.\<close>

definition draftCfg :: "env \<Rightarrow> ClawdbotConfig option \<Rightarrow> AccountIdArg \<Rightarrow> ChunkConfig option" where
  "draftCfg e cfg accountId =
     (let normalizedAccountId = normalizeAccountId e accountId;
          telegram = Option.bind cfg (\<lambda>c. entry c ''telegram'')
      in nullish
           (Option.bind (Option.bind (Option.bind telegram accounts) (\<lambda>t. t normalizedAccountId))
              draftChunk)
           (Option.bind telegram draftChunk))"

definition resolveTelegramDraftStreamingChunking ::
  "env \<Rightarrow> ClawdbotConfig option \<Rightarrow> AccountIdArg \<Rightarrow> Chunking" where
  "resolveTelegramDraftStreamingChunking e cfg accountId =
     (let limit = telegramTextLimit e cfg accountId;
          draft = draftCfg e cfg accountId;
          maxRequested = Math_max (Num 1)
            (Math_floor (orElse (Option.bind draft chunk_maxChars) DEFAULT_TELEGRAM_DRAFT_STREAM_MAX));
          maxCh = Math_max (Num 1) (Math_min maxRequested limit);
          minRequested = Math_max (Num 1)
            (Math_floor (orElse (Option.bind draft chunk_minChars) DEFAULT_TELEGRAM_DRAFT_STREAM_MIN));
          minCh = Math_min minRequested maxCh
      in \<lparr>minChars = minCh, maxChars = maxCh, breakPreference = acceptedBreak draft\<rparr>)"

text \<open>Lines 154 to 163: the plugin's streaming defaults and the coalescing block in force.\<close>

definition providerDefaults :: "env \<Rightarrow> string option \<Rightarrow> CoalesceDefaults option" where
  "providerDefaults e providerId =
     (if truthy providerId
      then Option.bind (Option.bind (Option.bind providerId (getProviderPlugin e)) streaming)
             blockStreamingCoalesceDefaults
      else None)"

definition agentCoalesceCfg :: "ClawdbotConfig option \<Rightarrow> CoalesceConfig option" where
  "agentCoalesceCfg cfg =
     Option.bind (Option.bind (Option.bind cfg agents) defaults) defaults_blockStreamingCoalesce"

definition coalesceCfg ::
  "env \<Rightarrow> ClawdbotConfig option \<Rightarrow> string option \<Rightarrow> AccountIdArg \<Rightarrow> CoalesceConfig option" where
  "coalesceCfg e cfg provider accountId =
     nullish
       (resolveProviderBlockStreamingCoalesce e cfg (normalizeChunkProvider e provider) accountId)
       (agentCoalesceCfg cfg)"

definition joinerOf :: "Chunking option \<Rightarrow> string" where
  "joinerOf chunking =
     (let preference = orElse (map_option breakPreference chunking) ''paragraph''
      in if preference = ''sentence'' then '' ''
         else if preference = ''newline'' then [CHR 0x0A]
         else [CHR 0x0A, CHR 0x0A])"

definition resolveBlockStreamingCoalescing ::
  "env \<Rightarrow> ClawdbotConfig option \<Rightarrow> string option \<Rightarrow> AccountIdArg \<Rightarrow> Chunking option
     \<Rightarrow> BlockStreamingCoalescing option" where
  "resolveBlockStreamingCoalescing e cfg provider accountId chunking =
     (let providerKey = normalizeChunkProvider e provider;
          providerId = providerIdOf e providerKey;
          limit = textLimit e cfg provider accountId;
          pluginDefaults = providerDefaults e providerId;
          cc = coalesceCfg e cfg provider accountId;
          minRequested = Math_max (Num 1)
            (Math_floor
               (orElse
                  (nullish (Option.bind cc coalesce_minChars)
                     (nullish (Option.bind pluginDefaults defaults_minChars)
                        (map_option minChars chunking)))
                  DEFAULT_BLOCK_STREAM_MIN));
          maxRequested = Math_max (Num 1) (Math_floor (orElse (Option.bind cc coalesce_maxChars) limit));
          maxCh = Math_max (Num 1) (Math_min maxRequested limit);
          minCh = Math_min minRequested maxCh;
          idle = Math_max (Num 0)
            (Math_floor
               (orElse
                  (nullish (Option.bind cc coalesce_idleMs) (Option.bind pluginDefaults defaults_idleMs))
                  DEFAULT_BLOCK_STREAM_COALESCE_IDLE_MS))
      in Some \<lparr>minChars = minCh, maxChars = maxCh, idleMs = idle, joiner = joinerOf chunking\<rparr>)"

subsection \<open>Example inputs\<close>

text \<open>A registry with two providers, of which only Telegram has a plugin, an account
  normaliser that trims and lower-cases and names the missing account default, and a
  text-limit resolver that answers \<open>L\<close> for every call.\<close>

definition telegramPlugin :: ProviderPlugin where
  "telegramPlugin =
     \<lparr>outbound = Some \<lparr>textChunkLimit = Some (Num 4000)\<rparr>,
      streaming = Some \<lparr>blockStreamingCoalesceDefaults =
        Some \<lparr>defaults_minChars = Some (Num 1500), defaults_idleMs = Some (Num 1000)\<rparr>\<rparr>\<rparr>"

definition exampleEnv :: "number \<Rightarrow> env" where
  "exampleEnv L =
     \<lparr>PROVIDER_IDS = [''telegram'', ''discord''],
      INTERNAL_MESSAGE_PROVIDER = ''webchat'',
      normalizeProviderId = (\<lambda>k. if k = ''telegram'' \<or> k = ''discord'' then Some k else None),
      getProviderPlugin = (\<lambda>i. if i = ''telegram'' then Some telegramPlugin else None),
      normalizeAccountId =
        (\<lambda>a. case a of
               AccountId s \<Rightarrow> (if trim s = [] then ''default'' else toLowerCase (trim s))
             | _ \<Rightarrow> ''default''),
      resolveTextChunkLimit = (\<lambda>cfg providerKey accountId fallbackLimit. L)\<rparr>"




text \<open>\<open>{discord: S, telegram: S}\<close> with \<open>S\<close> the section
  \<open>{blockStreamingCoalesce: shared, accounts: {default: {blockStreamingCoalesce: {idleMs: 50}}}}\<close>;
  the provider-level block \<open>shared\<close> is \<open>{minChars: 300}\<close> in \<open>shadowCfg\<close> and
  \<open>{minChars: 300, maxChars: 100, idleMs: 7}\<close> in \<open>shadowAllCfg\<close>.\<close>

definition ownBlock :: CoalesceConfig where
  "ownBlock =
     \<lparr>coalesce_minChars = None, coalesce_maxChars = None, coalesce_idleMs = Some (Num 50)\<rparr>"

definition shadowAccount :: AccountConfig where
  "shadowAccount = \<lparr>blockStreamingCoalesce = Some ownBlock, draftChunk = None\<rparr>"

definition shadowSection :: "CoalesceConfig \<Rightarrow> ProviderConfig" where
  "shadowSection shared =
     \<lparr>blockStreamingCoalesce = Some shared,
      draftChunk = None,
      accounts = Some [''default'' \<mapsto> shadowAccount]\<rparr>"

definition minBlock :: CoalesceConfig where
  "minBlock =
     \<lparr>coalesce_minChars = Some (Num 300), coalesce_maxChars = None, coalesce_idleMs = None\<rparr>"

definition fullBlock :: CoalesceConfig where
  "fullBlock =
     \<lparr>coalesce_minChars = Some (Num 300), coalesce_maxChars = Some (Num 100),
      coalesce_idleMs = Some (Num 7)\<rparr>"

definition shadowCfg :: ClawdbotConfig where
  "shadowCfg =
     \<lparr>agents = None,
      entry = [''discord'' \<mapsto> shadowSection minBlock, ''telegram'' \<mapsto> shadowSection minBlock]\<rparr>"

definition shadowAllCfg :: ClawdbotConfig where
  "shadowAllCfg =
     \<lparr>agents = None,
      entry = [''discord'' \<mapsto> shadowSection fullBlock, ''telegram'' \<mapsto> shadowSection fullBlock]\<rparr>"

text \<open>\<open>{agents: {defaults: {blockStreamingCoalesce: {minChars: 50}}},
  discord: {blockStreamingCoalesce: {minChars: 300}, accounts: {default: {}}},
  telegram: {accounts: {default: {}}}}\<close>\<close>

definition bareAccount :: AccountConfig where
  "bareAccount = \<lparr>blockStreamingCoalesce = None, draftChunk = None\<rparr>"

definition agentBlock :: CoalesceConfig where
  "agentBlock =
     \<lparr>coalesce_minChars = Some (Num 50), coalesce_maxChars = None, coalesce_idleMs = None\<rparr>"

definition inheritDiscord :: ProviderConfig where
  "inheritDiscord =
     \<lparr>blockStreamingCoalesce = Some minBlock,
      draftChunk = None,
      accounts = Some [''default'' \<mapsto> bareAccount]\<rparr>"

definition inheritTelegram :: ProviderConfig where
  "inheritTelegram =
     \<lparr>blockStreamingCoalesce = None,
      draftChunk = None,
      accounts = Some [''default'' \<mapsto> bareAccount]\<rparr>"

definition inheritCfg :: ClawdbotConfig where
  "inheritCfg =
     \<lparr>agents = Some \<lparr>defaults = Some
        \<lparr>blockStreamingChunk = None, defaults_blockStreamingCoalesce = Some agentBlock\<rparr>\<rparr>,
      entry = [''discord'' \<mapsto> inheritDiscord, ''telegram'' \<mapsto> inheritTelegram]\<rparr>"

text \<open>\<open>{agents: {defaults: {blockStreamingChunk: {minChars: 0.5, maxChars: 2.5},
  blockStreamingCoalesce: {minChars: 3.5, maxChars: 7.25, idleMs: -1.5}}},
  telegram: {draftChunk: {minChars: -4, maxChars: 0.75}}}\<close>\<close>

definition fractionalCfg :: ClawdbotConfig where
  "fractionalCfg =
     \<lparr>agents = Some \<lparr>defaults = Some
        \<lparr>blockStreamingChunk = Some
           \<lparr>chunk_minChars = Some (Num (1 / 2)), chunk_maxChars = Some (Num (5 / 2)),
            chunk_breakPreference = None\<rparr>,
         defaults_blockStreamingCoalesce = Some
           \<lparr>coalesce_minChars = Some (Num (7 / 2)), coalesce_maxChars = Some (Num (29 / 4)),
            coalesce_idleMs = Some (Num (- 3 / 2))\<rparr>\<rparr>\<rparr>,
      entry = [''telegram'' \<mapsto>
        \<lparr>blockStreamingCoalesce = None,
         draftChunk = Some
           \<lparr>chunk_minChars = Some (Num (- 4)), chunk_maxChars = Some (Num (3 / 4)),
            chunk_breakPreference = None\<rparr>,
         accounts = None\<rparr>]\<rparr>"


text \<open>A resolved chunking with the sentence break preference.\<close>

definition sentenceChunking :: Chunking where
  "sentenceChunking =
     \<lparr>minChars = Num 100, maxChars = Num 900, breakPreference = ''sentence''\<rparr>"

section \<open>Properties\<close>

subsection \<open>Arithmetic of the clamps\<close>

lemmas js_defs = nullish_def orElse_def truthy_def

lemmas default_defs = DEFAULT_BLOCK_STREAM_MIN_def DEFAULT_BLOCK_STREAM_MAX_def
  DEFAULT_BLOCK_STREAM_COALESCE_IDLE_MS_def DEFAULT_TELEGRAM_DRAFT_STREAM_MIN_def
  DEFAULT_TELEGRAM_DRAFT_STREAM_MAX_def













subsection \<open>Evaluation of the example inputs\<close>

lemma example_textLimit: "textLimit (exampleEnv L) cfg provider accountId = L"
  by (simp add: textLimit_def exampleEnv_def)

lemma example_telegramTextLimit: "telegramTextLimit (exampleEnv L) cfg accountId = L"
  by (simp add: telegramTextLimit_def exampleEnv_def)

lemma example_providers:
  "BLOCK_CHUNK_PROVIDERS (exampleEnv L) = {''telegram'', ''discord'', ''webchat''}"
  by (simp add: BLOCK_CHUNK_PROVIDERS_def exampleEnv_def)

lemma example_discord:
  "normalizeChunkProvider (exampleEnv L) (Some '' Discord '') = Some ''discord''"
proof -
  have "toLowerCase (trim '' Discord '') = ''discord''"
    by code_simp
  then show ?thesis
    by (simp add: normalizeChunkProvider_def example_providers)
qed

lemma example_telegram:
  "normalizeChunkProvider (exampleEnv L) (Some ''TELEGRAM'') = Some ''telegram''"
proof -
  have "toLowerCase (trim ''TELEGRAM'') = ''telegram''"
    by code_simp
  then show ?thesis
    by (simp add: normalizeChunkProvider_def example_providers)
qed

lemma example_webchat:
  "normalizeChunkProvider (exampleEnv L) (Some ''webchat'') = Some ''webchat''"
proof -
  have "toLowerCase (trim ''webchat'') = ''webchat''"
    by code_simp
  then show ?thesis
    by (simp add: normalizeChunkProvider_def example_providers)
qed

lemma example_absent: "normalizeChunkProvider e None = None"
  by (simp add: normalizeChunkProvider_def)

lemma example_garbage:
  "toLowerCase (trim ''Telegrm'') = ''telegrm''"
  by code_simp

lemma example_account: "normalizeAccountId (exampleEnv L) Undefined = ''default''"
  by (simp add: exampleEnv_def)

lemma example_plugins:
  "providerDefaults (exampleEnv L) (providerIdOf (exampleEnv L) (Some ''discord'')) = None"
  "providerDefaults (exampleEnv L) (providerIdOf (exampleEnv L) (Some ''webchat'')) = None"
  "providerDefaults (exampleEnv L) (providerIdOf (exampleEnv L) None) = None"
  "providerDefaults (exampleEnv L) (providerIdOf (exampleEnv L) (Some ''telegram''))
     = Some \<lparr>defaults_minChars = Some (Num 1500), defaults_idleMs = Some (Num 1000)\<rparr>"
  by (simp_all add: providerDefaults_def providerIdOf_def truthy_def exampleEnv_def
      telegramPlugin_def)

subsection \<open>Shared facts about the coalescing resolver\<close>

lemma providerCoalesce_found:
  assumes "k \<noteq> []" and "entry c k = Some typed"
  shows "resolveProviderBlockStreamingCoalesce e (Some c) (Some k) accountId
    = nullish
        (Option.bind (Option.bind (accounts typed) (\<lambda>t. t (normalizeAccountId e accountId)))
           blockStreamingCoalesce)
        (blockStreamingCoalesce typed)"
  using assms by (simp add: resolveProviderBlockStreamingCoalesce_def Let_def)

lemma pluginDefaults_unfold:
  "providerDefaults e (providerIdOf e (Some k)) =
     (if k = [] then None
      else case normalizeProviderId e k of
             None \<Rightarrow> None
           | Some pid \<Rightarrow>
               if pid = [] then None
               else Option.bind (Option.bind (getProviderPlugin e pid) streaming)
                      blockStreamingCoalesceDefaults)"
  by (simp add: providerDefaults_def providerIdOf_def truthy_def split: option.splits)

lemma coalescing_unfold:
  "resolveBlockStreamingCoalescing e cfg provider accountId chunking =
     (let limit = textLimit e cfg provider accountId;
          plugin = providerDefaults e (providerIdOf e (normalizeChunkProvider e provider));
          block = coalesceCfg e cfg provider accountId;
          maxC = Math_max (Num 1)
            (Math_min (Math_max (Num 1) (Math_floor (orElse (Option.bind block coalesce_maxChars) limit)))
               limit)
      in Some
        \<lparr>minChars =
           Math_min
             (Math_max (Num 1)
                (Math_floor
                   (orElse
                      (nullish (Option.bind block coalesce_minChars)
                         (nullish (Option.bind plugin defaults_minChars)
                            (map_option minChars chunking)))
                      (Num 800))))
             maxC,
         maxChars = maxC,
         idleMs =
           Math_max (Num 0)
             (Math_floor
                (orElse
                   (nullish (Option.bind block coalesce_idleMs)
                      (Option.bind plugin defaults_idleMs))
                   (Num 1000))),
         joiner = joinerOf chunking\<rparr>)"
  by (simp add: resolveBlockStreamingCoalescing_def Let_def default_defs)

section \<open>The claims\<close>




text \<open>
  C2, as amended. The claim has the coalescing resolver return \<open>undefined\<close> exactly when
  the provider key could not be normalized. The function has no such return: it returns
  a \<open>{minChars, maxChars, idleMs, joiner}\<close> record for every input, whether or not the
  provider string is missing or unrecognized.
\<close>

theorem coalescing_always_defined:
  "resolveBlockStreamingCoalescing e cfg provider accountId chunking \<noteq> None"
  by (simp add: resolveBlockStreamingCoalescing_def Let_def)

text \<open>With no configuration and no provider the provider key is absent and the result
  is the record of the built-in defaults.\<close>

theorem coalescing_defined_without_provider:
  "normalizeChunkProvider (exampleEnv (Num 4000)) None = None \<and>
   resolveBlockStreamingCoalescing (exampleEnv (Num 4000)) None None Undefined None
     = Some \<lparr>minChars = Num 800, maxChars = Num 4000, idleMs = Num 1000,
             joiner = [CHR 0x0A, CHR 0x0A]\<rparr>"
  by (simp add: coalescing_unfold Let_def example_absent example_textLimit example_plugins
      coalesceCfg_def agentCoalesceCfg_def resolveProviderBlockStreamingCoalesce_def joinerOf_def
      js_defs)

text \<open>
  C3. When the account entry of the normalized account id has its own
  \<open>blockStreamingCoalesce\<close> block, that block alone is the coalescing block in force: every
  field of the result is computed from it, and no field of the provider-level block is
  merged in. \<open>minChars\<close> is the block's own \<open>minChars\<close>, or else the plugin's streaming
  default (read from the plugin registry for the provider's plugin id), or else the
  chunking result's \<open>minChars\<close>, or else 800; \<open>maxChars\<close> is the block's own \<open>maxChars\<close> or
  else the hard limit; \<open>idleMs\<close> is the block's own \<open>idleMs\<close>, or else the plugin's, or
  else 1000. For the account-level block \<open>{idleMs: 50}\<close> the provider-level
  \<open>{minChars: 300}\<close> therefore does not reach the result.
\<close>

theorem account_block_shadows_provider_block:
  assumes "normalizeChunkProvider e provider = Some k" and "k \<noteq> []"
    and "entry c k = Some typed" and "accounts typed = Some accts"
    and "accts (normalizeAccountId e accountId) = Some acct"
    and "blockStreamingCoalesce acct = Some own"
  shows
    "let plugin =
           (case normalizeProviderId e k of
              None \<Rightarrow> None
            | Some pid \<Rightarrow>
                if pid = [] then None
                else Option.bind (Option.bind (getProviderPlugin e pid) streaming)
                       blockStreamingCoalesceDefaults);
         limit = textLimit e (Some c) provider accountId;
         maxC = Math_max (Num 1)
           (Math_min (Math_max (Num 1) (Math_floor (orElse (coalesce_maxChars own) limit))) limit)
     in coalesceCfg e (Some c) provider accountId = Some own \<and>
        resolveBlockStreamingCoalescing e (Some c) provider accountId chunking =
          Some
            \<lparr>minChars =
               Math_min
                 (Math_max (Num 1)
                    (Math_floor
                       (orElse
                          (nullish (coalesce_minChars own)
                             (nullish (Option.bind plugin defaults_minChars)
                                (map_option minChars chunking)))
                          (Num 800))))
                 maxC,
             maxChars = maxC,
             idleMs =
               Math_max (Num 0)
                 (Math_floor
                    (orElse
                       (nullish (coalesce_idleMs own) (Option.bind plugin defaults_idleMs))
                       (Num 1000))),
             joiner = joinerOf chunking\<rparr>"
proof -
  have block: "coalesceCfg e (Some c) provider accountId = Some own"
    using assms by (simp add: coalesceCfg_def providerCoalesce_found nullish_def)
  have plugin: "providerDefaults e (providerIdOf e (normalizeChunkProvider e provider)) =
      (case normalizeProviderId e k of
         None \<Rightarrow> None
       | Some pid \<Rightarrow>
           if pid = [] then None
           else Option.bind (Option.bind (getProviderPlugin e pid) streaming)
                  blockStreamingCoalesceDefaults)"
    using assms(1,2) by (simp add: pluginDefaults_unfold)
  show ?thesis
    by (simp add: coalescing_unfold Let_def block plugin)
qed

theorem account_block_shadows_provider_block_witness:
  "normalizeChunkProvider (exampleEnv (Num 4000)) (Some ''TELEGRAM'') = Some ''telegram'' \<and>
   ''telegram'' \<noteq> [] \<and>
   entry shadowCfg ''telegram'' = Some (shadowSection minBlock) \<and>
   entry shadowAllCfg ''telegram'' = Some (shadowSection fullBlock) \<and>
   accounts (shadowSection minBlock) = Some [''default'' \<mapsto> shadowAccount] \<and>
   accounts (shadowSection fullBlock) = Some [''default'' \<mapsto> shadowAccount] \<and>
   [''default'' \<mapsto> shadowAccount] (normalizeAccountId (exampleEnv (Num 4000)) Undefined)
     = Some shadowAccount \<and>
   blockStreamingCoalesce shadowAccount
     = Some \<lparr>coalesce_minChars = None, coalesce_maxChars = None,
             coalesce_idleMs = Some (Num 50)\<rparr> \<and>
   blockStreamingCoalesce (shadowSection minBlock)
     = Some \<lparr>coalesce_minChars = Some (Num 300), coalesce_maxChars = None,
             coalesce_idleMs = None\<rparr> \<and>
   blockStreamingCoalesce (shadowSection fullBlock)
     = Some \<lparr>coalesce_minChars = Some (Num 300), coalesce_maxChars = Some (Num 100),
             coalesce_idleMs = Some (Num 7)\<rparr> \<and>
   resolveBlockStreamingCoalescing (exampleEnv (Num 4000)) (Some shadowCfg) (Some ''TELEGRAM'')
       Undefined None
     = Some \<lparr>minChars = Num 1500, maxChars = Num 4000, idleMs = Num 50,
             joiner = [CHR 0x0A, CHR 0x0A]\<rparr> \<and>
   resolveBlockStreamingCoalescing (exampleEnv (Num 4000)) (Some shadowAllCfg) (Some ''TELEGRAM'')
       Undefined (Some sentenceChunking)
     = Some \<lparr>minChars = Num 1500, maxChars = Num 4000, idleMs = Num 50, joiner = '' ''\<rparr> \<and>
   resolveBlockStreamingCoalescing (exampleEnv (Num 4000)) (Some shadowCfg) (Some '' Discord '')
       Undefined (Some sentenceChunking)
     = Some \<lparr>minChars = Num 100, maxChars = Num 4000, idleMs = Num 50, joiner = '' ''\<rparr> \<and>
   resolveBlockStreamingCoalescing (exampleEnv (Num 4000)) (Some shadowAllCfg) (Some '' Discord '')
       Undefined None
     = Some \<lparr>minChars = Num 800, maxChars = Num 4000, idleMs = Num 50,
             joiner = [CHR 0x0A, CHR 0x0A]\<rparr>"
proof -
  have t: "normalizeChunkProvider (exampleEnv (Num 4000)) (Some ''TELEGRAM'') = Some ''telegram''"
    by (rule example_telegram)
  have d: "normalizeChunkProvider (exampleEnv (Num 4000)) (Some '' Discord '') = Some ''discord''"
    by (rule example_discord)
  have ne: "''telegram'' \<noteq> []" "''discord'' \<noteq> []"
    by simp_all
  have sections:
    "entry shadowCfg ''telegram'' = Some (shadowSection minBlock)"
    "entry shadowAllCfg ''telegram'' = Some (shadowSection fullBlock)"
    "entry shadowCfg ''discord'' = Some (shadowSection minBlock)"
    "entry shadowAllCfg ''discord'' = Some (shadowSection fullBlock)"
    by (simp_all add: shadowCfg_def shadowAllCfg_def)
  have table: "accounts (shadowSection shared) = Some [''default'' \<mapsto> shadowAccount]" for shared
    by (simp add: shadowSection_def)
  have account: "[''default'' \<mapsto> shadowAccount] (normalizeAccountId (exampleEnv (Num 4000)) Undefined)
      = Some shadowAccount"
    by (simp add: example_account)
  have own: "blockStreamingCoalesce shadowAccount = Some ownBlock"
    by (simp add: shadowAccount_def)
  have shared:
    "blockStreamingCoalesce (shadowSection minBlock)
       = Some \<lparr>coalesce_minChars = Some (Num 300), coalesce_maxChars = None,
               coalesce_idleMs = None\<rparr>"
    "blockStreamingCoalesce (shadowSection fullBlock)
       = Some \<lparr>coalesce_minChars = Some (Num 300), coalesce_maxChars = Some (Num 100),
               coalesce_idleMs = Some (Num 7)\<rparr>"
    by (simp_all add: shadowSection_def minBlock_def fullBlock_def)
  have registry:
    "normalizeProviderId (exampleEnv (Num 4000)) ''telegram'' = Some ''telegram''"
    "normalizeProviderId (exampleEnv (Num 4000)) ''discord'' = Some ''discord''"
    "getProviderPlugin (exampleEnv (Num 4000)) ''telegram'' = Some telegramPlugin"
    "getProviderPlugin (exampleEnv (Num 4000)) ''discord'' = None"
    by (simp_all add: exampleEnv_def)
  note shadowed = account_block_shadows_provider_block
  from
    shadowed [OF t ne(1) sections(1) table account own, of None]
    shadowed [OF t ne(1) sections(2) table account own, of "Some sentenceChunking"]
    shadowed [OF d ne(2) sections(3) table account own, of "Some sentenceChunking"]
    shadowed [OF d ne(2) sections(4) table account own, of None]
  show ?thesis
    using t sections table account own shared
    by (simp add: Let_def registry telegramPlugin_def example_textLimit ownBlock_def
        sentenceChunking_def joinerOf_def js_defs)
qed



text \<open>
  C5. In \<open>resolveBlockStreamingCoalescing\<close>, when the coalescing block in force configures
  no \<open>maxChars\<close> (so in particular when no layer does), \<open>maxChars\<close> is the hard limit
  itself, clamped to the hard limit and raised to at least 1: for an integer hard limit,
  the hard limit when that is at least 1, and 1 otherwise. The chunking result's
  \<open>maxChars\<close> is never read: changing only that field leaves the coalescing result
  unchanged.
\<close>

theorem coalescing_max_is_hard_limit:
  "(Option.bind (coalesceCfg e cfg provider accountId) coalesce_maxChars = None \<and>
    textLimit e cfg provider accountId = Num (of_int l) \<longrightarrow>
      (\<exists>r. resolveBlockStreamingCoalescing e cfg provider accountId chunking = Some r \<and>
         maxChars r = Num (max 1 (of_int l)) \<and>
         (1 \<le> l \<longrightarrow> maxChars r = textLimit e cfg provider accountId))) \<and>
   resolveBlockStreamingCoalescing e cfg provider accountId (Some (ch\<lparr>maxChars := m\<rparr>))
     = resolveBlockStreamingCoalescing e cfg provider accountId (Some ch)"
  by (simp add: coalescing_unfold Let_def orElse_def joinerOf_def)

theorem coalescing_max_is_hard_limit_witness:
  "Option.bind (coalesceCfg (exampleEnv (Num 2000)) (Some shadowCfg) (Some '' Discord '') Undefined)
     coalesce_maxChars = None \<and>
   textLimit (exampleEnv (Num 2000)) (Some shadowCfg) (Some '' Discord '') Undefined
     = Num (of_int 2000) \<and>
   (1::int) \<le> 2000 \<and>
   (\<exists>r. resolveBlockStreamingCoalescing (exampleEnv (Num 2000)) (Some shadowCfg) (Some '' Discord '')
          Undefined (Some sentenceChunking) = Some r \<and> maxChars r = Num 2000) \<and>
   resolveBlockStreamingCoalescing (exampleEnv (Num 2000)) (Some shadowCfg) (Some '' Discord '')
       Undefined (Some (sentenceChunking\<lparr>maxChars := Num 5\<rparr>))
     = resolveBlockStreamingCoalescing (exampleEnv (Num 2000)) (Some shadowCfg) (Some '' Discord '')
         Undefined (Some sentenceChunking)"
proof -
  have "resolveProviderBlockStreamingCoalesce (exampleEnv (Num 2000)) (Some shadowCfg)
      (Some ''discord'') Undefined = Some ownBlock"
    by (simp add: providerCoalesce_found [where typed = "shadowSection minBlock"] shadowCfg_def
        shadowSection_def shadowAccount_def example_account nullish_def)
  then have h: "Option.bind
      (coalesceCfg (exampleEnv (Num 2000)) (Some shadowCfg) (Some '' Discord '') Undefined)
      coalesce_maxChars = None"
    by (simp add: coalesceCfg_def example_discord ownBlock_def nullish_def)
  have limit: "textLimit (exampleEnv (Num 2000)) (Some shadowCfg) (Some '' Discord '') Undefined
      = Num (of_int 2000)"
    by (simp add: example_textLimit)
  from coalescing_max_is_hard_limit
    [where e = "exampleEnv (Num 2000)" and cfg = "Some shadowCfg"
      and provider = "Some '' Discord ''" and accountId = Undefined and l = 2000
      and chunking = "Some sentenceChunking" and ch = sentenceChunking and m = "Num 5"]
  show ?thesis
    using h limit by simp
qed

text \<open>
  C6. The joiner of the coalescing result is a function of the chunking argument's
  \<open>breakPreference\<close> alone: sentence gives a single space, newline a single newline, and
  any other value, as well as an absent chunking argument, two newlines. The configuration,
  the provider and the account do not enter.
\<close>

theorem joiner_from_breakPreference:
  "\<exists>r. resolveBlockStreamingCoalescing e cfg provider accountId chunking = Some r \<and>
     joiner r =
       (case chunking of
          None \<Rightarrow> [CHR 0x0A, CHR 0x0A]
        | Some ch \<Rightarrow>
            if breakPreference ch = ''sentence'' then '' ''
            else if breakPreference ch = ''newline'' then [CHR 0x0A]
            else [CHR 0x0A, CHR 0x0A])"
  by (simp add: resolveBlockStreamingCoalescing_def Let_def joinerOf_def orElse_def
      split: option.splits)

theorem joiner_from_breakPreference_witness:
  "(\<exists>r. resolveBlockStreamingCoalescing (exampleEnv (Num 2000)) (Some shadowCfg)
          (Some '' Discord '') Undefined (Some sentenceChunking) = Some r \<and> joiner r = '' '') \<and>
   (\<exists>r. resolveBlockStreamingCoalescing (exampleEnv (Num 2000)) None None
          Undefined (Some (sentenceChunking\<lparr>breakPreference := ''newline''\<rparr>)) = Some r \<and>
        joiner r = [CHR 0x0A]) \<and>
   (\<exists>r. resolveBlockStreamingCoalescing (exampleEnv (Num 2000)) (Some inheritCfg) (Some ''Telegrm'')
          Undefined (Some (sentenceChunking\<lparr>breakPreference := ''word''\<rparr>)) = Some r \<and>
        joiner r = [CHR 0x0A, CHR 0x0A]) \<and>
   (\<exists>r. resolveBlockStreamingCoalescing (exampleEnv (Num 2000)) (Some fractionalCfg)
          (Some ''telegram'') (AccountId ''work'') None = Some r \<and>
        joiner r = [CHR 0x0A, CHR 0x0A])"
  using
    joiner_from_breakPreference
      [of "exampleEnv (Num 2000)" "Some shadowCfg" "Some '' Discord ''" Undefined
        "Some sentenceChunking"]
    joiner_from_breakPreference
      [of "exampleEnv (Num 2000)" None None Undefined
        "Some (sentenceChunking\<lparr>breakPreference := ''newline''\<rparr>)"]
    joiner_from_breakPreference
      [of "exampleEnv (Num 2000)" "Some inheritCfg" "Some ''Telegrm''" Undefined
        "Some (sentenceChunking\<lparr>breakPreference := ''word''\<rparr>)"]
    joiner_from_breakPreference
      [of "exampleEnv (Num 2000)" "Some fractionalCfg" "Some ''telegram''" "AccountId ''work''"
        None]
  by (simp add: sentenceChunking_def)

text \<open>
  C7. A provider string whose trimmed, lower-cased form is not in the registered provider
  set (the known providers and the internal sentinel) gives, in
  \<open>resolveBlockStreamingChunking\<close> and in \<open>resolveBlockStreamingCoalescing\<close>, exactly the
  result of the same call with the provider absent.
\<close>

theorem unrecognized_provider_as_absent:
  "toLowerCase (trim p) \<notin> BLOCK_CHUNK_PROVIDERS e \<Longrightarrow>
     resolveBlockStreamingChunking e cfg (Some p) accountId
       = resolveBlockStreamingChunking e cfg None accountId \<and>
     resolveBlockStreamingCoalescing e cfg (Some p) accountId chunking
       = resolveBlockStreamingCoalescing e cfg None accountId chunking"
  by (simp add: resolveBlockStreamingChunking_def resolveBlockStreamingCoalescing_def
      textLimit_def coalesceCfg_def normalizeChunkProvider_def Let_def)

theorem unrecognized_provider_as_absent_witness:
  "toLowerCase (trim ''Telegrm'') \<notin> BLOCK_CHUNK_PROVIDERS (exampleEnv (Num 2000)) \<and>
   resolveBlockStreamingChunking (exampleEnv (Num 2000)) (Some inheritCfg) (Some ''Telegrm'')
       Undefined
     = resolveBlockStreamingChunking (exampleEnv (Num 2000)) (Some inheritCfg) None Undefined \<and>
   resolveBlockStreamingCoalescing (exampleEnv (Num 2000)) (Some inheritCfg) (Some ''Telegrm'')
       Undefined (Some sentenceChunking)
     = resolveBlockStreamingCoalescing (exampleEnv (Num 2000)) (Some inheritCfg) None Undefined
         (Some sentenceChunking)"
proof -
  have h: "toLowerCase (trim ''Telegrm'') \<notin> BLOCK_CHUNK_PROVIDERS (exampleEnv (Num 2000))"
    by (simp add: example_garbage example_providers)
  from unrecognized_provider_as_absent [OF h] show ?thesis
    using h by simp
qed

text \<open>
  C8. With an absent configuration snapshot and a Telegram hard limit of at least 800,
  \<open>resolveTelegramDraftStreamingChunking\<close> returns 200, 800 and paragraph. These are not
  the defaults of the general resolver, which with an absent configuration and a hard
  limit of at least 1200 returns 800, 1200 and paragraph.
\<close>

theorem telegram_draft_defaults:
  "(js_le (Num 800) (telegramTextLimit e None accountId) \<longrightarrow>
      resolveTelegramDraftStreamingChunking e None accountId
        = \<lparr>minChars = Num 200, maxChars = Num 800, breakPreference = ''paragraph''\<rparr>) \<and>
   (js_le (Num 1200) (textLimit e None provider accountId) \<longrightarrow>
      resolveBlockStreamingChunking e None provider accountId
        = \<lparr>minChars = Num 800, maxChars = Num 1200, breakPreference = ''paragraph''\<rparr>)"
proof -
  have capped: "Math_max (Num 1) (Math_min (Num a) L) = Num a" if "js_le (Num a) L" and "1 \<le> a"
    for a L
    using that by (cases L) simp_all
  show ?thesis
    by (simp add: resolveTelegramDraftStreamingChunking_def resolveBlockStreamingChunking_def
        Let_def draftCfg_def acceptedBreak_def agentChunkCfg_def capped js_defs default_defs)
qed

theorem telegram_draft_defaults_witness:
  "js_le (Num 800) (telegramTextLimit (exampleEnv (Num 4000)) None (AccountId ''work'')) \<and>
   js_le (Num 1200)
     (textLimit (exampleEnv (Num 4000)) None (Some ''telegram'') (AccountId ''work'')) \<and>
   resolveTelegramDraftStreamingChunking (exampleEnv (Num 4000)) None (AccountId ''work'')
     = \<lparr>minChars = Num 200, maxChars = Num 800, breakPreference = ''paragraph''\<rparr> \<and>
   resolveBlockStreamingChunking (exampleEnv (Num 4000)) None (Some ''telegram'')
       (AccountId ''work'')
     = \<lparr>minChars = Num 800, maxChars = Num 1200, breakPreference = ''paragraph''\<rparr>"
  using telegram_draft_defaults
    [of "exampleEnv (Num 4000)" "AccountId ''work''" "Some ''telegram''"]
  by (simp add: example_textLimit example_telegramTextLimit)




text \<open>
  C10. Only the account entry's own \<open>blockStreamingCoalesce\<close> block shadows the
  provider-level one. The coalescing block in force is the account entry's own block when
  the entry has one; otherwise, so also when the entry exists without such a block, it is
  the provider-level block; the agent-level default
  \<open>agents.defaults.blockStreamingCoalesce\<close> is used only when neither exists, which includes
  the calls with no configuration, with an absent or unrecognized provider and with no
  section for the provider. The result is computed from that block.
\<close>

theorem coalesce_block_precedence:
  "let agentLevel =
         Option.bind (Option.bind (Option.bind cfg agents) defaults) defaults_blockStreamingCoalesce;
       found =
         (case cfg of
            None \<Rightarrow> None
          | Some c \<Rightarrow>
              (case normalizeChunkProvider e provider of
                 None \<Rightarrow> None
               | Some k \<Rightarrow> if k = [] then None else entry c k));
       accountLevel =
         Option.bind
           (Option.bind (Option.bind found accounts) (\<lambda>t. t (normalizeAccountId e accountId)))
           blockStreamingCoalesce;
       providerLevel = Option.bind found blockStreamingCoalesce;
       block =
         (case accountLevel of
            Some own \<Rightarrow> Some own
          | None \<Rightarrow> (case providerLevel of Some shared \<Rightarrow> Some shared | None \<Rightarrow> agentLevel));
       plugin = providerDefaults e (providerIdOf e (normalizeChunkProvider e provider));
       limit = textLimit e cfg provider accountId;
       maxC = Math_max (Num 1)
         (Math_min (Math_max (Num 1) (Math_floor (orElse (Option.bind block coalesce_maxChars) limit)))
            limit)
   in coalesceCfg e cfg provider accountId = block \<and>
      resolveBlockStreamingCoalescing e cfg provider accountId chunking =
        Some
          \<lparr>minChars =
             Math_min
               (Math_max (Num 1)
                  (Math_floor
                     (orElse
                        (nullish (Option.bind block coalesce_minChars)
                           (nullish (Option.bind plugin defaults_minChars)
                              (map_option minChars chunking)))
                        (Num 800))))
               maxC,
           maxChars = maxC,
           idleMs =
             Math_max (Num 0)
               (Math_floor
                  (orElse
                     (nullish (Option.bind block coalesce_idleMs)
                        (Option.bind plugin defaults_idleMs))
                     (Num 1000))),
           joiner = joinerOf chunking\<rparr> \<and>
      (found = Some typed \<and> accounts typed = Some accts \<and>
       accts (normalizeAccountId e accountId) = Some acct \<and>
       blockStreamingCoalesce acct = None \<and> blockStreamingCoalesce typed = Some shared \<longrightarrow>
         coalesceCfg e cfg provider accountId = Some shared) \<and>
      (accountLevel = Some own \<longrightarrow> coalesceCfg e cfg provider accountId = Some own) \<and>
      (accountLevel = None \<and> providerLevel = Some shared \<longrightarrow>
         coalesceCfg e cfg provider accountId = Some shared) \<and>
      (accountLevel = None \<and> providerLevel = None \<longrightarrow>
         coalesceCfg e cfg provider accountId = agentLevel)"
proof -
  have block: "coalesceCfg e cfg provider accountId =
    (case Option.bind
            (Option.bind
               (Option.bind
                  (case cfg of
                     None \<Rightarrow> None
                   | Some c \<Rightarrow>
                       (case normalizeChunkProvider e provider of
                          None \<Rightarrow> None
                        | Some k \<Rightarrow> if k = [] then None else entry c k))
                  accounts)
               (\<lambda>t. t (normalizeAccountId e accountId)))
            blockStreamingCoalesce of
       Some own \<Rightarrow> Some own
     | None \<Rightarrow>
         (case Option.bind
                 (case cfg of
                    None \<Rightarrow> None
                  | Some c \<Rightarrow>
                      (case normalizeChunkProvider e provider of
                         None \<Rightarrow> None
                       | Some k \<Rightarrow> if k = [] then None else entry c k))
                 blockStreamingCoalesce of
            Some shared \<Rightarrow> Some shared
          | None \<Rightarrow>
              Option.bind (Option.bind (Option.bind cfg agents) defaults)
                defaults_blockStreamingCoalesce))"
    by (simp add: coalesceCfg_def agentCoalesceCfg_def resolveProviderBlockStreamingCoalesce_def
        Let_def nullish_def split: option.splits)
  show ?thesis
    unfolding Let_def coalescing_unfold block [symmetric]
    by (auto simp add: block split: option.splits)
qed

theorem coalesce_block_precedence_witness:
  "normalizeChunkProvider (exampleEnv (Num 2000)) (Some '' Discord '') = Some ''discord'' \<and>
   entry inheritCfg ''discord'' = Some inheritDiscord \<and>
   accounts inheritDiscord = Some [''default'' \<mapsto> bareAccount] \<and>
   [''default'' \<mapsto> bareAccount] (normalizeAccountId (exampleEnv (Num 2000)) Undefined)
     = Some bareAccount \<and>
   blockStreamingCoalesce bareAccount = None \<and>
   blockStreamingCoalesce inheritDiscord = Some minBlock \<and>
   Option.bind (Option.bind (Option.bind (Some inheritCfg) agents) defaults)
       defaults_blockStreamingCoalesce = Some agentBlock \<and>
   coalesceCfg (exampleEnv (Num 2000)) (Some inheritCfg) (Some '' Discord '') Undefined
     = Some minBlock \<and>
   resolveBlockStreamingCoalescing (exampleEnv (Num 2000)) (Some inheritCfg) (Some '' Discord '')
       Undefined None
     = Some \<lparr>minChars = Num 300, maxChars = Num 2000, idleMs = Num 1000,
             joiner = [CHR 0x0A, CHR 0x0A]\<rparr> \<and>
   normalizeChunkProvider (exampleEnv (Num 2000)) (Some ''TELEGRAM'') = Some ''telegram'' \<and>
   entry inheritCfg ''telegram'' = Some inheritTelegram \<and>
   accounts inheritTelegram = Some [''default'' \<mapsto> bareAccount] \<and>
   blockStreamingCoalesce inheritTelegram = None \<and>
   coalesceCfg (exampleEnv (Num 2000)) (Some inheritCfg) (Some ''TELEGRAM'') Undefined
     = Some agentBlock \<and>
   resolveBlockStreamingCoalescing (exampleEnv (Num 2000)) (Some inheritCfg) (Some ''TELEGRAM'')
       Undefined None
     = Some \<lparr>minChars = Num 50, maxChars = Num 2000, idleMs = Num 1000,
             joiner = [CHR 0x0A, CHR 0x0A]\<rparr> \<and>
   normalizeChunkProvider (exampleEnv (Num 2000)) (Some ''webchat'') = Some ''webchat'' \<and>
   entry inheritCfg ''webchat'' = None \<and>
   coalesceCfg (exampleEnv (Num 2000)) (Some inheritCfg) (Some ''webchat'') Undefined
     = Some agentBlock \<and>
   resolveBlockStreamingCoalescing (exampleEnv (Num 2000)) (Some inheritCfg) (Some ''webchat'')
       Undefined None
     = Some \<lparr>minChars = Num 50, maxChars = Num 2000, idleMs = Num 1000,
             joiner = [CHR 0x0A, CHR 0x0A]\<rparr> \<and>
   normalizeChunkProvider (exampleEnv (Num 2000)) None = None \<and>
   coalesceCfg (exampleEnv (Num 2000)) (Some inheritCfg) None Undefined = Some agentBlock \<and>
   resolveBlockStreamingCoalescing (exampleEnv (Num 2000)) (Some inheritCfg) None Undefined None
     = Some \<lparr>minChars = Num 50, maxChars = Num 2000, idleMs = Num 1000,
             joiner = [CHR 0x0A, CHR 0x0A]\<rparr> \<and>
   coalesceCfg (exampleEnv (Num 2000)) None (Some '' Discord '') Undefined = None \<and>
   resolveBlockStreamingCoalescing (exampleEnv (Num 2000)) None (Some '' Discord '') Undefined None
     = Some \<lparr>minChars = Num 800, maxChars = Num 2000, idleMs = Num 1000,
             joiner = [CHR 0x0A, CHR 0x0A]\<rparr>"
proof -
  note providers = example_discord [of "Num 2000"] example_telegram [of "Num 2000"]
    example_webchat [of "Num 2000"] example_absent [of "exampleEnv (Num 2000)"]
  have sections:
    "entry inheritCfg ''discord'' = Some inheritDiscord"
    "entry inheritCfg ''telegram'' = Some inheritTelegram"
    "entry inheritCfg ''webchat'' = None"
    by (simp_all add: inheritCfg_def)
  have tables:
    "accounts inheritDiscord = Some [''default'' \<mapsto> bareAccount]"
    "accounts inheritTelegram = Some [''default'' \<mapsto> bareAccount]"
    "[''default'' \<mapsto> bareAccount] (normalizeAccountId (exampleEnv (Num 2000)) Undefined)
       = Some bareAccount"
    by (simp_all add: inheritDiscord_def inheritTelegram_def example_account)
  have blocks:
    "blockStreamingCoalesce bareAccount = None"
    "blockStreamingCoalesce inheritDiscord = Some minBlock"
    "blockStreamingCoalesce inheritTelegram = None"
    "Option.bind (Option.bind (Option.bind (Some inheritCfg) agents) defaults)
       defaults_blockStreamingCoalesce = Some agentBlock"
    by (simp_all add: bareAccount_def inheritDiscord_def inheritTelegram_def inheritCfg_def)
  note precedence = coalesce_block_precedence
    [where e = "exampleEnv (Num 2000)" and accountId = Undefined and chunking = None
      and typed = inheritDiscord and accts = "[''default'' \<mapsto> bareAccount]"
      and acct = bareAccount and shared = minBlock and own = minBlock]
  note unfolds = Let_def providers example_textLimit example_plugins example_account
    inheritCfg_def inheritDiscord_def inheritTelegram_def bareAccount_def minBlock_def
    agentBlock_def joinerOf_def js_defs
  have discord:
    "coalesceCfg (exampleEnv (Num 2000)) (Some inheritCfg) (Some '' Discord '') Undefined
       = Some minBlock"
    "resolveBlockStreamingCoalescing (exampleEnv (Num 2000)) (Some inheritCfg)
       (Some '' Discord '') Undefined None
       = Some \<lparr>minChars = Num 300, maxChars = Num 2000, idleMs = Num 1000,
               joiner = [CHR 0x0A, CHR 0x0A]\<rparr>"
    using precedence [where cfg = "Some inheritCfg" and provider = "Some '' Discord ''"]
    by (simp_all add: unfolds)
  have telegram:
    "coalesceCfg (exampleEnv (Num 2000)) (Some inheritCfg) (Some ''TELEGRAM'') Undefined
       = Some agentBlock"
    "resolveBlockStreamingCoalescing (exampleEnv (Num 2000)) (Some inheritCfg)
       (Some ''TELEGRAM'') Undefined None
       = Some \<lparr>minChars = Num 50, maxChars = Num 2000, idleMs = Num 1000,
               joiner = [CHR 0x0A, CHR 0x0A]\<rparr>"
    using precedence [where cfg = "Some inheritCfg" and provider = "Some ''TELEGRAM''"]
    by (simp_all add: unfolds)
  have webchat:
    "coalesceCfg (exampleEnv (Num 2000)) (Some inheritCfg) (Some ''webchat'') Undefined
       = Some agentBlock"
    "resolveBlockStreamingCoalescing (exampleEnv (Num 2000)) (Some inheritCfg)
       (Some ''webchat'') Undefined None
       = Some \<lparr>minChars = Num 50, maxChars = Num 2000, idleMs = Num 1000,
               joiner = [CHR 0x0A, CHR 0x0A]\<rparr>"
    using precedence [where cfg = "Some inheritCfg" and provider = "Some ''webchat''"]
    by (simp_all add: unfolds)
  have absent:
    "coalesceCfg (exampleEnv (Num 2000)) (Some inheritCfg) None Undefined = Some agentBlock"
    "resolveBlockStreamingCoalescing (exampleEnv (Num 2000)) (Some inheritCfg) None Undefined None
       = Some \<lparr>minChars = Num 50, maxChars = Num 2000, idleMs = Num 1000,
               joiner = [CHR 0x0A, CHR 0x0A]\<rparr>"
    using precedence [where cfg = "Some inheritCfg" and provider = None]
    by (simp_all add: unfolds)
  have unconfigured:
    "coalesceCfg (exampleEnv (Num 2000)) None (Some '' Discord '') Undefined = None"
    "resolveBlockStreamingCoalescing (exampleEnv (Num 2000)) None (Some '' Discord '') Undefined
       None
       = Some \<lparr>minChars = Num 800, maxChars = Num 2000, idleMs = Num 1000,
               joiner = [CHR 0x0A, CHR 0x0A]\<rparr>"
    using precedence [where cfg = None and provider = "Some '' Discord ''"]
    by (simp_all add: unfolds)
  from providers sections tables blocks discord telegram webchat absent unconfigured
  show ?thesis
    by simp
qed

end
